theory Spec2Isabelle
  imports Complex_Main "HOL-Library.Product_Lexorder" "HOL-Library.Multiset"
begin

section \<open>Data model\<close>

text \<open>
  The program (\<^verbatim>\<open>src/main.py\<close>) works on pandas data frames. Numbers are modelled as
  reals (the arithmetic of the claims is that of the formulas, not of their rounding),
  and a timestamp as the calendar date it denotes: year, month and day, compared
  lexicographically, which is the order of the timestamps of valid calendar dates.
\<close>

type_synonym date = "int \<times> int \<times> int"

definition year :: "date \<Rightarrow> int" where
  "year d = fst d"

definition month :: "date \<Rightarrow> int" where
  "month d = fst (snd d)"

definition day :: "date \<Rightarrow> int" where
  "day d = snd (snd d)"

definition valid_date :: "date \<Rightarrow> bool" where
  "valid_date d = (1 \<le> month d \<and> month d \<le> 12 \<and> 1 \<le> day d \<and> day d \<le> 31)"

text \<open>
  A row of \<^verbatim>\<open>combined.csv\<close> as \<^verbatim>\<open>plotter\<close> reads it: the columns the function
  indexes by name.
\<close>

record row =
  Date :: date
  GHI :: real
  PR :: real

text \<open>
  \<^verbatim>\<open>df.sort_values('Date')\<close>: the rows in non-decreasing date order. The model is the
  stable insertion sort; pandas' default algorithm may order rows of equal date
  differently, so the theorems below rest on sortedness and on the multiset of rows only.
\<close>

definition sort_values :: "row list \<Rightarrow> row list" where
  "sort_values df = sort_key Date df"

text \<open>
  The exceptions a run can die of: a missing column (\<^verbatim>\<open>KeyError\<close>), a date string that
  \<^verbatim>\<open>pd.to_datetime\<close> rejects, \<^verbatim>\<open>pd.concat\<close> of no frames (\<^verbatim>\<open>ValueError\<close>), and an
  attribute read of \<^verbatim>\<open>None\<close>.
\<close>

datatype error = KeyError string | DateParseError string | ValueError | AttributeError

section \<open>Record loader: \<^verbatim>\<open>csvWalker\<close>\<close>

text \<open>
  A CSV file as \<^verbatim>\<open>pd.read_csv\<close> sees it: the header and the rows of cell texts (a cell
  that a short row lacks reads as the empty text). A directory tree holds files and
  directories by name.
\<close>

record table =
  columns :: "string list"
  records :: "string list list"

datatype node = File string table | Dir string "node list"

fun files_in :: "node list \<Rightarrow> (string \<times> table) list" where
  "files_in [] = []"
| "files_in (File name t # entries) = (name, t) # files_in entries"
| "files_in (Dir name sub # entries) = files_in entries"

text \<open>
  \<^verbatim>\<open>os.walk(dir)\<close>, top down: one list of files for each directory, the directory's own
  before those of its subdirectories.
\<close>

fun os_walk :: "node \<Rightarrow> (string \<times> table) list list" where
  "os_walk (File name t) = []"
| "os_walk (Dir name entries) = files_in entries # concat (map os_walk entries)"

definition endswith :: "string \<Rightarrow> string \<Rightarrow> bool" where
  "endswith s suffix =
     (length suffix \<le> length s \<and> drop (length s - length suffix) s = suffix)"

definition cell :: "table \<Rightarrow> string list \<Rightarrow> string \<Rightarrow> string" where
  "cell t r c = (case map_of (zip (columns t) r) c of Some v \<Rightarrow> v | None \<Rightarrow> [])"

text \<open>
  \<^verbatim>\<open>pd.to_datetime\<close> over a column of texts. Which texts it accepts is pandas' business:
  the parser is a parameter, \<open>None\<close> where pandas raises.
\<close>

fun to_datetime :: "(string \<Rightarrow> date option) \<Rightarrow> string list \<Rightarrow> error + date list" where
  "to_datetime parse [] = Inr []"
| "to_datetime parse (s # ss) =
     (case parse s of
        None \<Rightarrow> Inl (DateParseError s)
      | Some d \<Rightarrow> (case to_datetime parse ss of Inl e \<Rightarrow> Inl e | Inr ds \<Rightarrow> Inr (d # ds)))"

text \<open>
  A loaded row: its date and its other cells, each under the name of its column.
  \<^verbatim>\<open>
  tempDf = pd.read_csv(csvPath)
  tempDf['Date'] = pd.to_datetime(tempDf['Date'])
  \<close>
\<close>

type_synonym loaded = "date \<times> (string \<times> string) list"

definition others :: "table \<Rightarrow> string list \<Rightarrow> (string \<times> string) list" where
  "others t r = filter (\<lambda>(c, v). c \<noteq> ''Date'') (zip (columns t) r)"

definition read_frame :: "(string \<Rightarrow> date option) \<Rightarrow> table \<Rightarrow> error + loaded list" where
  "read_frame parse t =
     (if ''Date'' \<notin> set (columns t) then Inl (KeyError ''Date'')
      else case to_datetime parse (map (\<lambda>r. cell t r ''Date'') (records t)) of
             Inl e \<Rightarrow> Inl e
           | Inr ds \<Rightarrow> Inr (zip ds (map (others t) (records t))))"

text \<open>
  \<^verbatim>\<open>
  csvData = []
  for root, subDir, files in os.walk(dir):
      for file in files:
          if file.endswith('.csv'):
              ...
              csvData.append(tempDf)
  return pd.concat(csvData)
  \<close>
  \<^verbatim>\<open>pd.concat\<close> raises \<^verbatim>\<open>ValueError\<close> on an empty list of frames.
\<close>

fun csvWalker_loop ::
  "(string \<Rightarrow> date option) \<Rightarrow> (string \<times> table) list \<Rightarrow> loaded list list
     \<Rightarrow> error + loaded list list" where
  "csvWalker_loop parse [] csvData = Inr csvData"
| "csvWalker_loop parse ((file, t) # files) csvData =
     (if endswith file ''.csv''
      then (case read_frame parse t of
              Inl e \<Rightarrow> Inl e
            | Inr tempDf \<Rightarrow> csvWalker_loop parse files (csvData @ [tempDf]))
      else csvWalker_loop parse files csvData)"

definition pd_concat :: "'a list list \<Rightarrow> error + 'a list" where
  "pd_concat frames = (if frames = [] then Inl ValueError else Inr (concat frames))"

definition csvWalker :: "(string \<Rightarrow> date option) \<Rightarrow> node \<Rightarrow> error + loaded list" where
  "csvWalker parse dir =
     (case csvWalker_loop parse (concat (os_walk dir)) [] of
        Inl e \<Rightarrow> Inl e
      | Inr csvData \<Rightarrow> pd_concat csvData)"

section \<open>Merger: \<^verbatim>\<open>preprocessing\<close>\<close>

text \<open>
  \<^verbatim>\<open>pd.merge(ghiCsvData, prCsvData, on='Date', how='inner')\<close>: one row for every pair of
  a left and a right row of equal date, in the order of the left rows; then
  \<^verbatim>\<open>sort_values('Date')\<close>. The other columns of the two sides ride along.
\<close>

definition pd_merge :: "(date \<times> 'a) list \<Rightarrow> (date \<times> 'b) list \<Rightarrow> (date \<times> 'a \<times> 'b) list" where
  "pd_merge left right =
     concat (map (\<lambda>(d, a). map (\<lambda>(d', b). (d, a, b)) (filter (\<lambda>(d', b). d' = d) right)) left)"

definition combinedData :: "(date \<times> 'a) list \<Rightarrow> (date \<times> 'b) list \<Rightarrow> (date \<times> 'a \<times> 'b) list" where
  "combinedData ghiCsvData prCsvData = sort_key fst (pd_merge ghiCsvData prCsvData)"

text \<open>
  \<^verbatim>\<open>preprocessing\<close> loads the two directories, the GHI one first, and writes the merged,
  sorted frame; an exception of either load ends the run before anything is written.
\<close>

definition preprocessing ::
  "(string \<Rightarrow> date option) \<Rightarrow> node \<Rightarrow> node
     \<Rightarrow> error + (date \<times> (string \<times> string) list \<times> (string \<times> string) list) list" where
  "preprocessing parse ghiDir prDir =
     (case csvWalker parse ghiDir of
        Inl e \<Rightarrow> Inl e
      | Inr ghiCsvData \<Rightarrow>
          (case csvWalker parse prDir of
             Inl e \<Rightarrow> Inl e
           | Inr prCsvData \<Rightarrow> Inr (combinedData ghiCsvData prCsvData)))"

section \<open>Range selector: \<^verbatim>\<open>fetchCsvData\<close>\<close>

text \<open>
  \<^verbatim>\<open>
  if startDate is not None and endDate is not None:
      filteredData = csvData[(csvData['Date'] >= startDate) & (csvData['Date'] <= endDate)]
  else:
      return csvData.sort_values('Date')
  return filteredData.sort_values('Date')
  \<close>
  The argument \<open>csvData\<close> is the content of \<^verbatim>\<open>combined.csv\<close> in file order.
\<close>

definition fetchCsvData :: "date option \<Rightarrow> date option \<Rightarrow> row list \<Rightarrow> row list" where
  "fetchCsvData startDate endDate csvData =
     (if startDate \<noteq> None \<and> endDate \<noteq> None
      then sort_values
             (filter (\<lambda>r. Date r \<ge> the startDate \<and> Date r \<le> the endDate) csvData)
      else sort_values csvData)"

section \<open>Classifier: \<^verbatim>\<open>pd.cut\<close>\<close>

text \<open>
  \<^verbatim>\<open>pd.cut(csvData['GHI'], bins=[-np.inf, 2, 4, 6, np.inf],
         labels=['navy', 'lightblue', 'orange', 'brown'])\<close>
  With its default \<^verbatim>\<open>right=True\<close>, \<^verbatim>\<open>pd.cut\<close> puts a value \<open>x\<close> in the bin of two
  consecutive edges \<open>lo\<close>, \<open>hi\<close> when \<open>lo < x \<le> hi\<close>, and gives no label (NaN) to a
  value in no bin.
\<close>

datatype edge = NegInf | Fin real | PosInf

fun edge_less :: "edge \<Rightarrow> real \<Rightarrow> bool" where
  "edge_less NegInf x = True"
| "edge_less (Fin b) x = (b < x)"
| "edge_less PosInf x = False"

fun edge_ge :: "edge \<Rightarrow> real \<Rightarrow> bool" where
  "edge_ge NegInf x = False"
| "edge_ge (Fin b) x = (x \<le> b)"
| "edge_ge PosInf x = True"

fun cut :: "real \<Rightarrow> edge list \<Rightarrow> 'a list \<Rightarrow> 'a option" where
  "cut x (lo # hi # bins) (l # labels) =
     (if edge_less lo x \<and> edge_ge hi x then Some l else cut x (hi # bins) labels)"
| "cut x _ _ = None"

datatype color = navy | lightblue | orange | brown

definition colors :: "real \<Rightarrow> color option" where
  "colors ghi = cut ghi [NegInf, Fin 2, Fin 4, Fin 6, PosInf] [navy, lightblue, orange, brown]"

text \<open>The band number of a colour, in the order of the labels.\<close>

fun band :: "color \<Rightarrow> nat" where
  "band navy = 1"
| "band lightblue = 2"
| "band orange = 3"
| "band brown = 4"

section \<open>Budget model: \<^verbatim>\<open>budgetValues\<close>\<close>

text \<open>
  \<^verbatim>\<open>
  initialBudget = 73.9
  reduceRate = 0.008
  budget = []
  for date in csvData['Date']:
      year = math.floor((date.year - startDate.year) + (date.month - startDate.month) // 12)
      cur = initialBudget * (1 - reduceRate) ** year
      budget.append(cur)
  return budget
  \<close>
  Python's \<^verbatim>\<open>//\<close> on integers rounds towards minus infinity, as \<open>div\<close> on \<open>int\<close> does;
  \<^verbatim>\<open>math.floor\<close> of an integer is that integer; \<^verbatim>\<open>**\<close> with an integer exponent of
  either sign is \<open>powi\<close>.
\<close>

definition initialBudget :: real where
  "initialBudget = 73.9"

definition reduceRate :: real where
  "reduceRate = 0.008"

definition elapsed :: "date \<Rightarrow> date \<Rightarrow> int" where
  "elapsed d startDate = (year d - year startDate) + (month d - month startDate) div 12"

fun budget_loop :: "date list \<Rightarrow> date \<Rightarrow> real list \<Rightarrow> real list" where
  "budget_loop [] startDate budget = budget"
| "budget_loop (d # ds) startDate budget =
     budget_loop ds startDate
       (budget @ [initialBudget * (1 - reduceRate) powi (elapsed d startDate)])"

definition budgetValues :: "row list \<Rightarrow> date \<Rightarrow> real list" where
  "budgetValues csvData startDate = budget_loop (map Date csvData) startDate []"

text \<open>
  The formula in the words of the specification: the floor of the year difference plus
  the floor of the real quotient of the month difference by 12, and real exponentiation.
\<close>

definition spec_elapsed_years :: "date \<Rightarrow> date \<Rightarrow> int" where
  "spec_elapsed_years d s =
     \<lfloor>real_of_int (year d - year s) + real_of_int \<lfloor>real_of_int (month d - month s) / 12\<rfloor>\<rfloor>"

definition spec_budget :: "date \<Rightarrow> date \<Rightarrow> real" where
  "spec_budget d s = 73.9 * (1 - 0.008) powr real_of_int (spec_elapsed_years d s)"

section \<open>Rolling aggregator\<close>

text \<open>
  \<^verbatim>\<open>Series.mean()\<close> is the sum over the count, and NaN (here \<open>None\<close>) on an empty series.
  \<^verbatim>\<open>Series.rolling(window=w).mean()\<close> gives, at position \<open>i\<close>, the mean of the \<open>w\<close> values
  ending at \<open>i\<close>, and NaN while fewer than \<open>w\<close> values have been seen.
  \<^verbatim>\<open>Series.tail(n)\<close> is \<^verbatim>\<open>iloc[-n:]\<close>: the last \<open>n\<close> values, or all of them when there are
  fewer.
\<close>

definition mean :: "real list \<Rightarrow> real option" where
  "mean xs = (if xs = [] then None else Some (sum_list xs / real (length xs)))"

definition rolling_mean :: "nat \<Rightarrow> real list \<Rightarrow> real option list" where
  "rolling_mean window xs =
     map (\<lambda>i. if i + 1 < window then None
              else mean (take window (drop (i + 1 - window) xs)))
       [0 ..< length xs]"

definition tail :: "nat \<Rightarrow> 'a list \<Rightarrow> 'a list" where
  "tail n xs = drop (length xs - n) xs"

definition avg_pr :: "nat \<Rightarrow> row list \<Rightarrow> real option" where
  "avg_pr k csvData = mean (tail k (map PR csvData))"

definition avg_pr_lifetime :: "row list \<Rightarrow> real option" where
  "avg_pr_lifetime csvData = mean (map PR csvData)"

section \<open>Compliance counter\<close>

text \<open>
  \<^verbatim>\<open>
  pointsAboveBudget = (csvData['PR'] > csvData['Budget']).sum()
  totalPoints = len(csvData)
  percTotalPoints = (pointsAboveBudget / totalPoints) * 100
  \<close>
\<close>

definition pointsAboveBudget :: "row list \<Rightarrow> real list \<Rightarrow> nat" where
  "pointsAboveBudget csvData budget =
     length (filter (\<lambda>(pr, b). pr > b) (zip (map PR csvData) budget))"

definition percTotalPoints :: "row list \<Rightarrow> real list \<Rightarrow> real" where
  "percTotalPoints csvData budget =
     (real (pointsAboveBudget csvData budget) / real (length csvData)) * 100"

section \<open>The plotting run: \<^verbatim>\<open>plotter\<close>\<close>

text \<open>
  What a run of \<^verbatim>\<open>plotter\<close> leaves behind: the message it prints and returns after, the
  exception it dies of, or the computed series and the image it saves. The image file is
  \<^verbatim>\<open>plot_<start>_to_<end>.jpg\<close>, recorded by the two dates of its name.
\<close>

record artifacts =
  PR_30avg :: "real option list"
  Budget :: "real list"
  band_colors :: "color option list"
  above :: nat
  total :: nat
  perc :: real
  avg_pr_7d :: "real option"
  avg_pr_30d :: "real option"
  avg_pr_60d :: "real option"
  avg_pr_90d :: "real option"
  avg_pr_365d :: "real option"
  avg_lifetime :: "real option"
  savefig :: "date \<times> date"

datatype outcome = Printed string | Raised error | Plotted artifacts

text \<open>
  The steps of \<^verbatim>\<open>plotter\<close> in the order of the source. \<^verbatim>\<open>pd.to_datetime(None)\<close> is
  \<^verbatim>\<open>None\<close>. The default start date \<^verbatim>\<open>csvData['Date'][0]\<close> is looked up by label: it is the
  date of the first row of the file, whatever the sort did; the default end date
  \<^verbatim>\<open>csvData['Date'].iloc[-1]\<close> is the date of the last row after sorting. With a start
  date of \<^verbatim>\<open>None\<close>, \<^verbatim>\<open>budgetValues\<close> raises at \<^verbatim>\<open>startDate.year\<close>; with an end date of
  \<^verbatim>\<open>None\<close>, the title raises at \<^verbatim>\<open>endDate.date()\<close>, before the image is saved.
\<close>

definition plotter :: "date option \<Rightarrow> date option \<Rightarrow> row list \<Rightarrow> outcome" where
  "plotter startDate endDate combined =
     (let csvData = fetchCsvData startDate endDate combined in
      if length csvData = 0 then Printed ''No Data for the given Date Range!''
      else
        let (startDate', endDate') =
              (if startDate = None \<and> endDate = None
               then (Some (Date (hd combined)), Some (Date (last csvData)))
               else (startDate, endDate))
        in case startDate' of
             None \<Rightarrow> Raised AttributeError
           | Some s \<Rightarrow>
               let budget = budgetValues csvData s in
               (case endDate' of
                  None \<Rightarrow> Raised AttributeError
                | Some e \<Rightarrow>
                    Plotted \<lparr>
                      PR_30avg = rolling_mean 30 (map PR csvData),
                      Budget = budget,
                      band_colors = map (\<lambda>r. colors (GHI r)) csvData,
                      above = pointsAboveBudget csvData budget,
                      total = length csvData,
                      perc = percTotalPoints csvData budget,
                      avg_pr_7d = avg_pr 7 csvData,
                      avg_pr_30d = avg_pr 30 csvData,
                      avg_pr_60d = avg_pr 60 csvData,
                      avg_pr_90d = avg_pr 90 csvData,
                      avg_pr_365d = avg_pr 365 csvData,
                      avg_lifetime = avg_pr_lifetime csvData,
                      savefig = (s, e) \<rparr>))"

fun produced :: "outcome \<Rightarrow> artifacts option" where
  "produced (Plotted a) = Some a"
| "produced _ = None"

section \<open>Range selector: absent bounds\<close>

lemma sort_values_sorted: "sorted (map Date (sort_values df))"
  by (simp add: sort_values_def)

lemma sort_values_mset: "mset (sort_values df) = mset df"
  by (simp add: sort_values_def)

text \<open>
  Claim C1. When both bounds are absent the selector returns every row of the series,
  in non-decreasing date order; when exactly one bound is given it returns what it returns
  for no bound at all.
\<close>

theorem fetchCsvData_absent_bounds:
  "fetchCsvData None None csvData = sort_values csvData \<and>
   fetchCsvData (Some s) None csvData = fetchCsvData None None csvData \<and>
   fetchCsvData None (Some e) csvData = fetchCsvData None None csvData \<and>
   sorted (map Date (fetchCsvData None None csvData)) \<and>
   mset (fetchCsvData None None csvData) = mset csvData"
  by (simp add: fetchCsvData_def sort_values_sorted sort_values_mset)

theorem fetchCsvData_absent_bounds_witness:
  "fetchCsvData (Some (2021, 1, 2)) None
     [\<lparr>Date = (2021, 1, 3), GHI = 5, PR = 70\<rparr>, \<lparr>Date = (2021, 1, 1), GHI = 1, PR = 75\<rparr>]
   = fetchCsvData None None
     [\<lparr>Date = (2021, 1, 3), GHI = 5, PR = 70\<rparr>, \<lparr>Date = (2021, 1, 1), GHI = 1, PR = 75\<rparr>]
   \<and> fetchCsvData None None
     [\<lparr>Date = (2021, 1, 3), GHI = 5, PR = 70\<rparr>, \<lparr>Date = (2021, 1, 1), GHI = 1, PR = 75\<rparr>]
   = [\<lparr>Date = (2021, 1, 1), GHI = 1, PR = 75\<rparr>, \<lparr>Date = (2021, 1, 3), GHI = 5, PR = 70\<rparr>]"
  using fetchCsvData_absent_bounds
    [of "[\<lparr>Date = (2021, 1, 3), GHI = 5, PR = 70\<rparr>, \<lparr>Date = (2021, 1, 1), GHI = 1, PR = 75\<rparr>]"
        "(2021, 1, 2)"]
  by (simp add: sort_values_def)

section \<open>Classifier: the bands\<close>

lemma colors_cases:
  "colors ghi =
     (if ghi \<le> 2 then Some navy else if ghi \<le> 4 then Some lightblue
      else if ghi \<le> 6 then Some orange else Some brown)"
  by (simp add: colors_def)

text \<open>
  Claim C2, the claim as stated fails: the value 6.0 is in the third band, not the fourth
  (the bins are closed on the right).
\<close>

theorem colors_six_counterexample:
  "map_option band (colors 6) = Some 3 \<and> map_option band (colors 6) \<noteq> Some 4"
  by (simp add: colors_cases)

text \<open>
  Claim C2, amended. Every real value gets exactly one of the four colours; values below 2
  get band 1, values above 2 and up to 4 band 2, values above 4 and up to 6 band 3, and
  values above 6 band 4.
\<close>

theorem colors_bands:
  "colors ghi \<noteq> None \<and>
   (ghi < 2 \<longrightarrow> map_option band (colors ghi) = Some 1) \<and>
   (2 < ghi \<and> ghi \<le> 4 \<longrightarrow> map_option band (colors ghi) = Some 2) \<and>
   (4 < ghi \<and> ghi \<le> 6 \<longrightarrow> map_option band (colors ghi) = Some 3) \<and>
   (6 < ghi \<longrightarrow> map_option band (colors ghi) = Some 4)"
  by (simp add: colors_cases)

theorem colors_bands_witness:
  "(19 / 10 :: real) < 2 \<and> map_option band (colors (19 / 10)) = Some 1 \<and>
   (2 :: real) < 3 \<and> (3 :: real) \<le> 4 \<and> map_option band (colors 3) = Some 2 \<and>
   (4 :: real) < 5999 / 1000 \<and> (5999 / 1000 :: real) \<le> 6 \<and>
     map_option band (colors (5999 / 1000)) = Some 3 \<and>
   (6 :: real) < 7 \<and> map_option band (colors 7) = Some 4"
  using colors_bands [of "19 / 10"] colors_bands [of 3] colors_bands [of "5999 / 1000"]
    colors_bands [of 7]
  by simp

section \<open>Budget model: the formula\<close>

lemma budget_loop_map:
  "budget_loop ds s acc =
     acc @ map (\<lambda>d. initialBudget * (1 - reduceRate) powi (elapsed d s)) ds"
  by (induction ds arbitrary: acc) simp_all

lemma elapsed_spec: "elapsed d s = spec_elapsed_years d s"
proof -
  have "\<lfloor>real_of_int (month d - month s) / 12\<rfloor> = (month d - month s) div 12"
    using floor_divide_of_int_eq [of "month d - month s" 12, where ?'a = real] by simp
  then show ?thesis
    by (simp add: elapsed_def spec_elapsed_years_def)
qed

text \<open>
  From the start date on, the month difference is at least \<open>-11\<close> in a later year and
  non-negative in the same year, so the floor division takes away at most one year.
\<close>

lemma elapsed_nonneg:
  assumes "valid_date s" "valid_date d" "s \<le> d"
  shows "0 \<le> elapsed d s"
proof -
  obtain ys ms ds where s: "s = (ys, ms, ds)" by (cases s) auto
  obtain yd md dd where d: "d = (yd, md, dd)" by (cases d) auto
  from assms(3) have "ys < yd \<or> (ys = yd \<and> ms \<le> md)"
    by (auto simp: s d less_eq_prod_def less_prod_def)
  moreover from assms(1,2) have "1 \<le> ms" "ms \<le> 12" "1 \<le> md" "md \<le> 12"
    by (simp_all add: valid_date_def month_def s d)
  ultimately show ?thesis
    by (auto simp: elapsed_def year_def month_def s d)
qed

lemma budget_powr:
  "initialBudget * (1 - reduceRate) powi e = 73.9 * (1 - 0.008) powr real_of_int e"
  by (simp add: initialBudget_def reduceRate_def powr_real_of_int')

lemma budgetValues_map:
  "budgetValues csvData s = map (\<lambda>r. spec_budget (Date r) s) csvData"
  by (simp add: budgetValues_def budget_loop_map budget_powr spec_budget_def elapsed_spec
      comp_def)

text \<open>
  Claim C3. \<^verbatim>\<open>budgetValues\<close> returns one value per row, the value of row \<open>i\<close> being
  73.9 times (1 - 0.008) to the power of the elapsed years of the specification's
  formula; for a row dated on or after the start date (both valid calendar dates) the
  elapsed years are non-negative.
\<close>

theorem budgetValues_formula:
  "length (budgetValues csvData s) = length csvData \<and>
   (i < length csvData \<longrightarrow>
      budgetValues csvData s ! i
        = 73.9 * (1 - 0.008) powr real_of_int (spec_elapsed_years (Date (csvData ! i)) s) \<and>
      (valid_date s \<and> valid_date (Date (csvData ! i)) \<and> s \<le> Date (csvData ! i)
         \<longrightarrow> 0 \<le> spec_elapsed_years (Date (csvData ! i)) s))"
  using elapsed_nonneg [of s "Date (csvData ! i)"]
  by (simp add: budgetValues_map spec_budget_def elapsed_spec)

theorem budgetValues_formula_witness:
  "(1::nat) < length [\<lparr>Date = (2022, 1, 15), GHI = 3, PR = 75\<rparr>,
                      \<lparr>Date = (2022, 12, 1), GHI = 5, PR = 70\<rparr>] \<and>
   valid_date (2021, 12, 1) \<and> valid_date (2022, 12, 1) \<and>
   ((2021, 12, 1) :: date) \<le> (2022, 12, 1) \<and>
   spec_elapsed_years (2022, 1, 15) (2021, 12, 1) = 0 \<and>
   spec_elapsed_years (2022, 12, 1) (2021, 12, 1) = 1 \<and>
   budgetValues [\<lparr>Date = (2022, 1, 15), GHI = 3, PR = 75\<rparr>,
                 \<lparr>Date = (2022, 12, 1), GHI = 5, PR = 70\<rparr>] (2021, 12, 1)
     = [739 / 10, 733088 / 10000]"
  using budgetValues_formula
    [of "[\<lparr>Date = (2022, 1, 15), GHI = 3, PR = 75\<rparr>, \<lparr>Date = (2022, 12, 1), GHI = 5, PR = 70\<rparr>]"
        "(2021, 12, 1)" 1]
  by (simp add: budgetValues_def initialBudget_def reduceRate_def elapsed_def
      elapsed_spec [symmetric] year_def month_def day_def valid_date_def)

section \<open>Compliance counter: the percentage\<close>

lemma pointsAboveBudget_card:
  "pointsAboveBudget csvData (budgetValues csvData s) =
     card {i. i < length csvData \<and> PR (csvData ! i) > spec_budget (Date (csvData ! i)) s}"
proof -
  have "{i. i < length csvData \<and>
            (case zip (map PR csvData) (map (\<lambda>r. spec_budget (Date r) s) csvData) ! i of
               (pr, b) \<Rightarrow> b < pr)}
        = {i. i < length csvData \<and> spec_budget (Date (csvData ! i)) s < PR (csvData ! i)}"
    by auto
  then show ?thesis
    by (simp add: pointsAboveBudget_def budgetValues_map length_filter_conv_card)
qed

lemma pointsAboveBudget_le: "pointsAboveBudget csvData budget \<le> length csvData"
proof -
  have "pointsAboveBudget csvData budget \<le> length (zip (map PR csvData) budget)"
    unfolding pointsAboveBudget_def by (rule length_filter_le)
  then show ?thesis by simp
qed

text \<open>
  Claim C4. On a non-empty series the compliance percentage is 100 times the number of
  rows whose PR is strictly above the budget of their date, over the number of rows, and
  it lies between 0 and 100.
\<close>

theorem percTotalPoints_percentage:
  assumes "csvData \<noteq> []"
  shows "percTotalPoints csvData (budgetValues csvData s) =
           100 * real (card {i. i < length csvData \<and>
                               PR (csvData ! i) > spec_budget (Date (csvData ! i)) s})
             / real (length csvData) \<and>
         0 \<le> percTotalPoints csvData (budgetValues csvData s) \<and>
         percTotalPoints csvData (budgetValues csvData s) \<le> 100"
proof -
  let ?b = "budgetValues csvData s"
  have n: "0 < real (length csvData)" using assms by simp
  have le: "real (pointsAboveBudget csvData ?b) \<le> real (length csvData)"
    using pointsAboveBudget_le [of csvData ?b] by simp
  have "percTotalPoints csvData ?b \<le> 100"
    using n le by (simp add: percTotalPoints_def field_simps)
  moreover have "0 \<le> percTotalPoints csvData ?b"
    by (simp add: percTotalPoints_def)
  moreover have "percTotalPoints csvData ?b =
      100 * real (card {i. i < length csvData \<and>
                          PR (csvData ! i) > spec_budget (Date (csvData ! i)) s})
        / real (length csvData)"
    by (simp add: percTotalPoints_def pointsAboveBudget_card)
  ultimately show ?thesis by simp
qed

theorem percTotalPoints_percentage_witness:
  "[\<lparr>Date = (2021, 1, 1), GHI = 1, PR = 75\<rparr>, \<lparr>Date = (2021, 1, 2), GHI = 3, PR = 80\<rparr>,
    \<lparr>Date = (2021, 1, 3), GHI = 5, PR = 70\<rparr>] \<noteq> [] \<and>
   percTotalPoints
     [\<lparr>Date = (2021, 1, 1), GHI = 1, PR = 75\<rparr>, \<lparr>Date = (2021, 1, 2), GHI = 3, PR = 80\<rparr>,
      \<lparr>Date = (2021, 1, 3), GHI = 5, PR = 70\<rparr>]
     (budgetValues
        [\<lparr>Date = (2021, 1, 1), GHI = 1, PR = 75\<rparr>, \<lparr>Date = (2021, 1, 2), GHI = 3, PR = 80\<rparr>,
         \<lparr>Date = (2021, 1, 3), GHI = 5, PR = 70\<rparr>] (2021, 1, 1)) = 200 / 3 \<and>
   (200 / 3 :: real) \<le> 100"
  using percTotalPoints_percentage
    [of "[\<lparr>Date = (2021, 1, 1), GHI = 1, PR = 75\<rparr>, \<lparr>Date = (2021, 1, 2), GHI = 3, PR = 80\<rparr>,
          \<lparr>Date = (2021, 1, 3), GHI = 5, PR = 70\<rparr>]" "(2021, 1, 1)"]
  by (simp add: percTotalPoints_def pointsAboveBudget_def budgetValues_def initialBudget_def
      reduceRate_def elapsed_def year_def month_def)

section \<open>Rolling aggregator: the averages\<close>

lemma sum_list_take_drop:
  fixes xs :: "real list"
  assumes "k + n \<le> length xs"
  shows "sum_list (take n (drop k xs)) = (\<Sum>j = k ..< k + n. xs ! j)"
proof -
  have len: "length (take n (drop k xs)) = n" using assms by simp
  have "sum_list (take n (drop k xs)) = (\<Sum>i = 0 ..< n. take n (drop k xs) ! i)"
    using sum_list_sum_nth [of "take n (drop k xs)"] len by (simp add: atLeast0LessThan)
  also have "\<dots> = (\<Sum>i = 0 ..< n. xs ! (i + k))"
    using assms by (intro sum.cong) (simp_all add: add.commute)
  also have "\<dots> = (\<Sum>j = 0 + k ..< n + k. xs ! j)"
    by (rule sum.shift_bounds_nat_ivl [symmetric])
  finally show ?thesis by (simp add: add.commute)
qed

lemma rolling_mean_nth:
  assumes "i < length xs" "0 < w"
  shows "rolling_mean w xs ! i =
           (if i + 1 < w then None
            else Some ((\<Sum>j = i + 1 - w ..< i + 1. xs ! j) / real w))"
proof (cases "i + 1 < w")
  case True
  with assms show ?thesis by (simp add: rolling_mean_def)
next
  case False
  then have fit: "(i + 1 - w) + w \<le> length xs" using assms by simp
  then have len: "length (take w (drop (i + 1 - w) xs)) = w" by simp
  with assms have ne: "take w (drop (i + 1 - w) xs) \<noteq> []" by auto
  have "sum_list (take w (drop (i + 1 - w) xs)) = (\<Sum>j = i + 1 - w ..< i + 1. xs ! j)"
    using sum_list_take_drop [OF fit] False by simp
  with False assms ne len show ?thesis
    by (simp add: rolling_mean_def mean_def del: length_take take_eq_Nil)
qed

text \<open>
  Claim C5. At row \<open>i\<close> of the selected series the 30-row rolling average of PR is the
  mean of the rows \<open>i - 29\<close> to \<open>i\<close> when \<open>i \<ge> 29\<close>, and missing, not zero, when
  \<open>i < 29\<close>.
\<close>

theorem rolling_mean_30:
  "i < length csvData \<Longrightarrow>
     rolling_mean 30 (map PR csvData) ! i =
       (if 29 \<le> i then Some ((\<Sum>j = i - 29 .. i. PR (csvData ! j)) / 30) else None) \<and>
     (i < 29 \<longrightarrow> rolling_mean 30 (map PR csvData) ! i \<noteq> Some 0)"
proof -
  assume i: "i < length csvData"
  have "{i + 1 - 30 ..< i + 1} = {i - 29 .. i}" by auto
  moreover have "(\<Sum>j = i - 29 .. i. map PR csvData ! j) = (\<Sum>j = i - 29 .. i. PR (csvData ! j))"
    using i by (intro sum.cong) simp_all
  ultimately show ?thesis
    using rolling_mean_nth [of i "map PR csvData" 30] i by auto
qed


theorem rolling_mean_30_witness:
  "(29::nat) < length (replicate 29 \<lparr>Date = (2021, 1, 1), GHI = 1, PR = 70\<rparr>
                        @ [\<lparr>Date = (2021, 1, 2), GHI = 1, PR = 100\<rparr>]) \<and>
   rolling_mean 30 (map PR (replicate 29 \<lparr>Date = (2021, 1, 1), GHI = 1, PR = 70\<rparr>
                        @ [\<lparr>Date = (2021, 1, 2), GHI = 1, PR = 100\<rparr>])) ! 29 = Some 71 \<and>
   (28::nat) < 29 \<and>
   rolling_mean 30 (map PR (replicate 29 \<lparr>Date = (2021, 1, 1), GHI = 1, PR = 70\<rparr>
                        @ [\<lparr>Date = (2021, 1, 2), GHI = 1, PR = 100\<rparr>])) ! 28 = None"
proof -
  let ?df = "replicate 29 \<lparr>Date = (2021, 1, 1), GHI = 1, PR = 70\<rparr>
               @ [\<lparr>Date = (2021, 1, 2), GHI = 1, PR = 100\<rparr>]"
  have "{0 .. 29::nat} = insert 29 {0 ..< 29}" by auto
  then have "(\<Sum>j = 0 .. 29. PR (?df ! j)) = (\<Sum>j = 0 ..< 29. PR (?df ! j)) + PR (?df ! 29)"
    by simp
  also have "(\<Sum>j = 0 ..< 29. PR (?df ! j)) = (\<Sum>j = 0 ..< (29::nat). 70)"
    by (intro sum.cong) (simp_all add: nth_append)
  finally have s: "(\<Sum>j = 0 .. 29. PR (?df ! j)) = 2130"
    by (simp add: nth_append)
  show ?thesis
    using rolling_mean_30 [of 29 ?df] rolling_mean_30 [of 28 ?df] s by simp
qed

lemma tail_length: "length (tail k xs) = min k (length xs)"
  by (simp add: tail_def)

text \<open>
  Claim C9. On a non-empty series and for each horizon \<open>k\<close> of 7, 30, 60, 90 and 365, the
  \<open>k\<close>-window average of PR is the mean of the last \<open>min k n\<close> rows, which is the mean of
  all rows when there are fewer than \<open>k\<close>; the lifetime average is the mean of all rows.
\<close>

theorem avg_pr_windows:
  assumes "csvData \<noteq> []" and "k \<in> {7, 30, 60, 90, 365}"
  shows "avg_pr k csvData =
           Some ((\<Sum>i = length csvData - min k (length csvData) ..< length csvData.
                    PR (csvData ! i)) / real (min k (length csvData))) \<and>
         (length csvData < k \<longrightarrow> avg_pr k csvData = avg_pr_lifetime csvData) \<and>
         avg_pr_lifetime csvData =
           Some ((\<Sum>i = 0 ..< length csvData. PR (csvData ! i)) / real (length csvData))"
proof -
  let ?n = "length csvData"
  let ?xs = "map PR csvData"
  from assms(2) have k: "0 < k" by auto
  have "0 < min k ?n" using assms(1) k by simp
  then have "0 < length (tail k ?xs)" by (simp only: tail_length length_map)
  then have ne: "tail k ?xs \<noteq> []" by auto
  have "sum_list (tail k ?xs) = sum_list (take (min k ?n) (drop (?n - min k ?n) ?xs))"
    by (simp add: tail_def min_def)
  also have "\<dots> = (\<Sum>i = ?n - min k ?n ..< (?n - min k ?n) + min k ?n. ?xs ! i)"
    by (rule sum_list_take_drop) simp
  also have "\<dots> = (\<Sum>i = ?n - min k ?n ..< ?n. PR (csvData ! i))"
    by (intro sum.cong) auto
  finally have win: "avg_pr k csvData =
      Some ((\<Sum>i = ?n - min k ?n ..< ?n. PR (csvData ! i)) / real (min k ?n))"
    using ne by (simp add: avg_pr_def mean_def tail_length)
  have "sum_list ?xs = (\<Sum>i = 0 ..< ?n. ?xs ! i)"
    using sum_list_sum_nth [of ?xs] by (simp add: atLeast0LessThan)
  also have "\<dots> = (\<Sum>i = 0 ..< ?n. PR (csvData ! i))"
    by (intro sum.cong) auto
  finally have life: "avg_pr_lifetime csvData =
      Some ((\<Sum>i = 0 ..< ?n. PR (csvData ! i)) / real ?n)"
    using assms(1) by (simp add: avg_pr_lifetime_def mean_def)
  have "?n < k \<longrightarrow> avg_pr k csvData = avg_pr_lifetime csvData"
    by (simp add: avg_pr_def avg_pr_lifetime_def tail_def)
  with win life show ?thesis by simp
qed

theorem avg_pr_windows_witness:
  "[\<lparr>Date = (2021, 1, 1), GHI = 1, PR = 75\<rparr>, \<lparr>Date = (2021, 1, 2), GHI = 3, PR = 80\<rparr>,
    \<lparr>Date = (2021, 1, 3), GHI = 5, PR = 70\<rparr>] \<noteq> [] \<and>
   (7::nat) \<in> {7, 30, 60, 90, 365} \<and>
   length [\<lparr>Date = (2021, 1, 1), GHI = 1, PR = 75\<rparr>, \<lparr>Date = (2021, 1, 2), GHI = 3, PR = 80\<rparr>,
    \<lparr>Date = (2021, 1, 3), GHI = 5, PR = 70\<rparr>] < 7 \<and>
   avg_pr 7 [\<lparr>Date = (2021, 1, 1), GHI = 1, PR = 75\<rparr>, \<lparr>Date = (2021, 1, 2), GHI = 3, PR = 80\<rparr>,
    \<lparr>Date = (2021, 1, 3), GHI = 5, PR = 70\<rparr>] = Some 75 \<and>
   avg_pr_lifetime [\<lparr>Date = (2021, 1, 1), GHI = 1, PR = 75\<rparr>, \<lparr>Date = (2021, 1, 2), GHI = 3, PR = 80\<rparr>,
    \<lparr>Date = (2021, 1, 3), GHI = 5, PR = 70\<rparr>] = Some 75"
  using avg_pr_windows
    [of "[\<lparr>Date = (2021, 1, 1), GHI = 1, PR = 75\<rparr>, \<lparr>Date = (2021, 1, 2), GHI = 3, PR = 80\<rparr>,
          \<lparr>Date = (2021, 1, 3), GHI = 5, PR = 70\<rparr>]" 7]
  by (simp add: avg_pr_def avg_pr_lifetime_def mean_def tail_def)

section \<open>Merger: the inner join\<close>

lemma pd_merge_Nil: "pd_merge [] right = []"
  by (simp add: pd_merge_def)

lemma pd_merge_Cons:
  "pd_merge ((d, a) # left) right =
     map (\<lambda>(d', b). (d, a, b)) (filter (\<lambda>(d', b). d' = d) right) @ pd_merge left right"
  by (simp add: pd_merge_def)

lemma set_pd_merge:
  "set (pd_merge left right) = {(d, a, b). (d, a) \<in> set left \<and> (d, b) \<in> set right}"
  by (fastforce simp: pd_merge_def)

lemma dates_pd_merge:
  "fst ` set (pd_merge left right) = fst ` set left \<inter> fst ` set right"
  by (force simp: set_pd_merge)

lemma matches_of_distinct:
  "distinct (map fst right) \<Longrightarrow> distinct (map fst (filter (\<lambda>(d', b). d' = d) right))"
  by (simp add: distinct_map_filter)

lemma dates_of_matches:
  "map (fst \<circ> (\<lambda>(d', b). (d, a, b))) (filter (\<lambda>(d', b). d' = d) right)
     = map fst (filter (\<lambda>(d', b). d' = d) right)"
  by (induction right) auto

lemma distinct_pd_merge:
  assumes "distinct (map fst left)" and "distinct (map fst right)"
  shows "distinct (map fst (pd_merge left right))"
  using assms(1)
proof (induction left)
  case Nil
  show ?case by (simp add: pd_merge_Nil)
next
  case (Cons l left)
  obtain d a where l: "l = (d, a)" by (cases l)
  from Cons.prems have fresh: "d \<notin> fst ` set left" and rest: "distinct (map fst left)"
    by (simp_all add: l)
  have tl: "distinct (map fst (pd_merge left right))" using Cons.IH rest by simp
  have hd: "distinct (map fst (filter (\<lambda>(d', b). d' = d) right))"
    using assms(2) by (rule matches_of_distinct)
  have "set (map fst (filter (\<lambda>(d', b). d' = d) right)) \<subseteq> {d}" by auto
  moreover have "d \<notin> set (map fst (pd_merge left right))"
    using fresh dates_pd_merge [of left right] by auto
  ultimately have "set (map fst (filter (\<lambda>(d', b). d' = d) right))
      \<inter> set (map fst (pd_merge left right)) = {}" by blast
  with tl hd show ?case
    by (simp add: l pd_merge_Cons dates_of_matches del: set_map)
qed

text \<open>
  Claim C6. When no date occurs twice within either source, a date is in the combined
  series exactly when it is in both sources, each such date has a single row, and the
  series is in non-decreasing date order.
\<close>

theorem combinedData_inner_join:
  assumes "distinct (map fst ghiCsvData)" and "distinct (map fst prCsvData)"
  shows "(d \<in> fst ` set (combinedData ghiCsvData prCsvData)
            \<longleftrightarrow> d \<in> fst ` set ghiCsvData \<and> d \<in> fst ` set prCsvData) \<and>
         distinct (map fst (combinedData ghiCsvData prCsvData)) \<and>
         sorted (map fst (combinedData ghiCsvData prCsvData))"
proof -
  have "mset (map fst (combinedData ghiCsvData prCsvData))
          = mset (map fst (pd_merge ghiCsvData prCsvData))"
    by (simp add: combinedData_def)
  then have "distinct (map fst (combinedData ghiCsvData prCsvData))"
    using distinct_pd_merge [OF assms] mset_eq_imp_distinct_iff by blast
  moreover have "fst ` set (combinedData ghiCsvData prCsvData)
      = fst ` set ghiCsvData \<inter> fst ` set prCsvData"
    by (simp add: combinedData_def dates_pd_merge)
  ultimately show ?thesis
    by (simp add: combinedData_def)
qed

theorem combinedData_inner_join_witness:
  "distinct (map fst ([((2021, 1, 2), 3), ((2021, 1, 5), 1), ((2021, 1, 1), 1),
                       ((2021, 1, 4), 7), ((2021, 1, 3), 5)] :: (date \<times> real) list)) \<and>
   distinct (map fst ([((2021, 1, 3), 70), ((2021, 1, 1), 75), ((2021, 1, 2), 80)]
                       :: (date \<times> real) list)) \<and>
   combinedData
     ([((2021, 1, 2), 3), ((2021, 1, 5), 1), ((2021, 1, 1), 1), ((2021, 1, 4), 7),
       ((2021, 1, 3), 5)] :: (date \<times> real) list)
     ([((2021, 1, 3), 70), ((2021, 1, 1), 75), ((2021, 1, 2), 80)] :: (date \<times> real) list)
   = [((2021, 1, 1), 1, 75), ((2021, 1, 2), 3, 80), ((2021, 1, 3), 5, 70)]"
  using combinedData_inner_join
    [of "[((2021, 1, 2), 3), ((2021, 1, 5), 1), ((2021, 1, 1), 1), ((2021, 1, 4), 7),
          ((2021, 1, 3), 5)] :: (date \<times> real) list"
        "[((2021, 1, 3), 70), ((2021, 1, 1), 75), ((2021, 1, 2), 80)] :: (date \<times> real) list"
        "(2021, 1, 4)"]
  by (simp add: combinedData_def pd_merge_def)

section \<open>The plotting run: an empty selection\<close>

text \<open>
  Claim C7. When the selected range has no rows, \<^verbatim>\<open>plotter\<close> prints its message and
  returns: it raises nothing and produces no budget curve, no rolling average and no
  image file.
\<close>

theorem plotter_empty_range:
  assumes "fetchCsvData startDate endDate combined = []"
  shows "plotter startDate endDate combined = Printed ''No Data for the given Date Range!'' \<and>
         produced (plotter startDate endDate combined) = None"
  using assms by (simp add: plotter_def)


theorem plotter_empty_range_witness:
  "fetchCsvData (Some (2022, 1, 1)) (Some (2022, 12, 31))
     [\<lparr>Date = (2021, 1, 1), GHI = 1, PR = 75\<rparr>, \<lparr>Date = (2021, 1, 2), GHI = 3, PR = 80\<rparr>] = [] \<and>
   plotter (Some (2022, 1, 1)) (Some (2022, 12, 31))
     [\<lparr>Date = (2021, 1, 1), GHI = 1, PR = 75\<rparr>, \<lparr>Date = (2021, 1, 2), GHI = 3, PR = 80\<rparr>]
     = Printed ''No Data for the given Date Range!''"
  using plotter_empty_range
    [of "Some (2022, 1, 1)" "Some (2022, 12, 31)"
        "[\<lparr>Date = (2021, 1, 1), GHI = 1, PR = 75\<rparr>, \<lparr>Date = (2021, 1, 2), GHI = 3, PR = 80\<rparr>]"]
  by (simp add: fetchCsvData_def sort_values_def)

text \<open>
  With exactly one bound given and a non-empty series the run does not reach the image:
  the missing start date is read at \<^verbatim>\<open>startDate.year\<close>, the missing end date at
  \<^verbatim>\<open>endDate.date()\<close>.
\<close>

lemma plotter_one_bound_raises:
  assumes "fetchCsvData startDate endDate combined \<noteq> []"
    and "(startDate = None) \<noteq> (endDate = None)"
  shows "plotter startDate endDate combined = Raised AttributeError"
  using assms by (cases startDate; cases endDate) (simp_all add: plotter_def Let_def)

section \<open>Record loader: failures and skipped files\<close>

lemma to_datetime_fails:
  "isl (to_datetime parse ss) \<longleftrightarrow> (\<exists>s \<in> set ss. parse s = None)"
  by (induction ss) (auto split: option.splits sum.splits)

lemma read_frame_fails:
  "isl (read_frame parse t) \<longleftrightarrow>
     ''Date'' \<notin> set (columns t) \<or> (\<exists>r \<in> set (records t). parse (cell t r ''Date'') = None)"
proof (cases "''Date'' \<in> set (columns t)")
  case False
  then show ?thesis by (simp add: read_frame_def)
next
  case True
  have "isl (read_frame parse t) = isl (to_datetime parse (map (\<lambda>r. cell t r ''Date'') (records t)))"
    using True by (simp add: read_frame_def split: sum.splits)
  with True show ?thesis by (simp add: to_datetime_fails)
qed

lemma csvWalker_loop_fails:
  "isl (csvWalker_loop parse files csvData) \<longleftrightarrow>
     (\<exists>f \<in> set files. endswith (fst f) ''.csv'' \<and> isl (read_frame parse (snd f)))"
proof (induction files arbitrary: csvData)
  case Nil
  show ?case by simp
next
  case (Cons f files)
  obtain name t where f: "f = (name, t)" by (cases f)
  show ?case
    using Cons.IH by (cases "read_frame parse t") (auto simp: f)
qed

lemma csvWalker_loop_no_csv:
  "\<forall>f \<in> set files. \<not> endswith (fst f) ''.csv'' \<Longrightarrow> csvWalker_loop parse files csvData = Inr csvData"
  by (induction files arbitrary: csvData) auto

lemma csvWalker_loop_filter:
  "csvWalker_loop parse (filter (\<lambda>f. endswith (fst f) ''.csv'') files) csvData
     = csvWalker_loop parse files csvData"
proof (induction files arbitrary: csvData)
  case Nil
  show ?case by simp
next
  case (Cons f files)
  obtain name t where f: "f = (name, t)" by (cases f)
  show ?case
    using Cons.IH by (cases "read_frame parse t") (simp_all add: f)
qed

lemma csvWalker_fails_of_loop:
  "isl (csvWalker_loop parse (concat (os_walk dir)) []) \<Longrightarrow> isl (csvWalker parse dir)"
  by (auto simp: csvWalker_def split: sum.splits)

lemma csvWalker_no_csv:
  assumes "\<forall>f \<in> set (concat (os_walk dir)). \<not> endswith (fst f) ''.csv''"
  shows "csvWalker parse dir = Inl ValueError"
  using csvWalker_loop_no_csv [OF assms, of parse "[]"]
  by (simp add: csvWalker_def pd_concat_def)

text \<open>
  Claim C8, amended. The loader fails, and with it the whole of \<^verbatim>\<open>preprocessing\<close>,
  whenever a CSV file of the directory tree has no \<^verbatim>\<open>Date\<close> column, whenever a date text
  of a CSV file is rejected by the date parser, and (with \<^verbatim>\<open>ValueError\<close>) whenever the tree
  holds no CSV file at all.
\<close>

theorem csvWalker_failures:
  "((\<exists>f \<in> set (concat (os_walk dir)).
        endswith (fst f) ''.csv'' \<and> ''Date'' \<notin> set (columns (snd f)))
      \<longrightarrow> isl (csvWalker parse dir)) \<and>
   ((\<exists>f \<in> set (concat (os_walk dir)).
        endswith (fst f) ''.csv'' \<and>
        (\<exists>r \<in> set (records (snd f)). parse (cell (snd f) r ''Date'') = None))
      \<longrightarrow> isl (csvWalker parse dir)) \<and>
   ((\<forall>f \<in> set (concat (os_walk dir)). \<not> endswith (fst f) ''.csv'')
      \<longrightarrow> csvWalker parse dir = Inl ValueError) \<and>
   (isl (csvWalker parse ghiDir) \<or> isl (csvWalker parse prDir)
      \<longrightarrow> isl (preprocessing parse ghiDir prDir))"
proof -
  have "isl (csvWalker parse dir)"
    if "\<exists>f \<in> set (concat (os_walk dir)).
          endswith (fst f) ''.csv'' \<and> isl (read_frame parse (snd f))"
    using that csvWalker_loop_fails [of parse "concat (os_walk dir)" "[]"]
    by (intro csvWalker_fails_of_loop) simp
  moreover have "isl (preprocessing parse ghiDir prDir)"
    if "isl (csvWalker parse ghiDir) \<or> isl (csvWalker parse prDir)"
    using that by (auto simp: preprocessing_def split: sum.splits)
  ultimately show ?thesis
    using csvWalker_no_csv [of dir parse] by (simp add: read_frame_fails) blast
qed

lemma csvWalker_depends_on_csv:
  assumes "filter (\<lambda>f. endswith (fst f) ''.csv'') (concat (os_walk dir))
             = filter (\<lambda>f. endswith (fst f) ''.csv'') (concat (os_walk dir'))"
  shows "csvWalker parse dir = csvWalker parse dir'"
proof -
  have "csvWalker_loop parse (concat (os_walk dir)) []
          = csvWalker_loop parse (concat (os_walk dir')) []"
    using csvWalker_loop_filter [of parse "concat (os_walk dir)" "[]"]
      csvWalker_loop_filter [of parse "concat (os_walk dir')" "[]"] assms by simp
  then show ?thesis by (simp add: csvWalker_def)
qed

text \<open>
  The loop reads every CSV file of the list, in order: it ends with the error of the first
  one that fails to load, and otherwise with the frames of all of them appended to the
  ones it started from.
\<close>

lemma csvWalker_loop_frames:
  "csvWalker_loop parse files csvData =
     (case filter isl (map (\<lambda>f. read_frame parse (snd f))
                        (filter (\<lambda>f. endswith (fst f) ''.csv'') files)) of
        r # rs \<Rightarrow> Inl (projl r)
      | [] \<Rightarrow> Inr (csvData @ map projr (map (\<lambda>f. read_frame parse (snd f))
                        (filter (\<lambda>f. endswith (fst f) ''.csv'') files))))"
proof (induction files arbitrary: csvData)
  case Nil
  show ?case by simp
next
  case (Cons f files)
  obtain name t where f: "f = (name, t)" by (cases f)
  show ?case
  proof (cases "endswith name ''.csv''")
    case False
    then show ?thesis using Cons.IH [of csvData] by (simp add: f split: list.splits)
  next
    case True
    show ?thesis
    proof (cases "read_frame parse t")
      case (Inl e)
      with True show ?thesis by (simp add: f)
    next
      case (Inr tempDf)
      with True show ?thesis
        using Cons.IH [of "csvData @ [tempDf]"] by (simp add: f split: list.splits)
    qed
  qed
qed

text \<open>
  Claim C10. The loader reads a file exactly when its name ends in \<^verbatim>\<open>.csv\<close>: its result
  is made of the frames of all the CSV files of the tree, in walk order (or is the error
  of the first of them that fails to load, or \<^verbatim>\<open>ValueError\<close> when there is none), so it
  depends on the CSV files only, whatever the other files hold, and a tree with no CSV
  file gives what a directory with no file at all gives.
\<close>

theorem csvWalker_only_csv:
  "csvWalker parse dir =
     (let frames = map (\<lambda>f. read_frame parse (snd f))
                     (filter (\<lambda>f. endswith (fst f) ''.csv'') (concat (os_walk dir)))
      in case filter isl frames of
           r # rs \<Rightarrow> Inl (projl r)
         | [] \<Rightarrow> if frames = [] then Inl ValueError else Inr (concat (map projr frames))) \<and>
   (filter (\<lambda>f. endswith (fst f) ''.csv'') (concat (os_walk dir))
      = filter (\<lambda>f. endswith (fst f) ''.csv'') (concat (os_walk dir'))
      \<longrightarrow> csvWalker parse dir = csvWalker parse dir') \<and>
   ((\<forall>f \<in> set (concat (os_walk dir)). \<not> endswith (fst f) ''.csv'')
      \<longrightarrow> csvWalker parse dir = csvWalker parse (Dir name [])) \<and>
   csvWalker parse (Dir name [File file t])
     = (if endswith file ''.csv'' then read_frame parse t else csvWalker parse (Dir name []))"
proof -
  have all: "csvWalker parse dir =
     (let frames = map (\<lambda>f. read_frame parse (snd f))
                     (filter (\<lambda>f. endswith (fst f) ''.csv'') (concat (os_walk dir)))
      in case filter isl frames of
           r # rs \<Rightarrow> Inl (projl r)
         | [] \<Rightarrow> if frames = [] then Inl ValueError else Inr (concat (map projr frames)))"
    unfolding csvWalker_def csvWalker_loop_frames [of parse "concat (os_walk dir)" "[]"]
    by (simp add: pd_concat_def Let_def split: list.splits)
  have "csvWalker parse (Dir name []) = Inl ValueError"
    by (simp add: csvWalker_def pd_concat_def)
  moreover have "csvWalker parse (Dir name [File file t])
     = (if endswith file ''.csv'' then read_frame parse t else Inl ValueError)"
    by (simp add: csvWalker_def pd_concat_def split: sum.splits)
  ultimately show ?thesis
    using all csvWalker_depends_on_csv [of dir dir' parse] csvWalker_no_csv [of dir parse]
    by simp
qed


text \<open>
  Claim C8, the claim as stated fails: a CSV file with a \<^verbatim>\<open>Date\<close> column and no value
  column loads without an error, and two directories whose CSV files have a header and no
  row give an empty merged frame, without an error.
\<close>

theorem csvWalker_counterexample:
  "csvWalker (\<lambda>s. if s = ''2021-01-01'' then Some (2021, 1, 1) else None)
     (Dir ''GHI'' [File ''2021.csv'' \<lparr>columns = [''Date''], records = [[''2021-01-01'']]\<rparr>])
     = Inr [((2021, 1, 1), [])] \<and>
   preprocessing (\<lambda>s. if s = ''2021-01-01'' then Some (2021, 1, 1) else None)
     (Dir ''GHI'' [File ''2021.csv'' \<lparr>columns = [''Date'', ''GHI''], records = []\<rparr>])
     (Dir ''PR'' [File ''2021.csv'' \<lparr>columns = [''Date'', ''PR''], records = []\<rparr>])
     = Inr []"
  by (simp add: preprocessing_def csvWalker_def pd_concat_def read_frame_def endswith_def
      cell_def others_def combinedData_def pd_merge_def)

theorem csvWalker_failures_witness:
  "csvWalker (\<lambda>s. if s = ''2021-01-01'' then Some (2021, 1, 1) else None)
     (Dir ''GHI'' [File ''2021.csv'' \<lparr>columns = [''Day'', ''GHI''],
                                        records = [[''2021-01-01'', ''3.5'']]\<rparr>])
     = Inl (KeyError ''Date'') \<and>
   csvWalker (\<lambda>s. if s = ''2021-01-01'' then Some (2021, 1, 1) else None)
     (Dir ''PR'' [Dir ''2021'' [File ''jan.csv'' \<lparr>columns = [''Date'', ''PR''],
                                        records = [[''2021-01-01'', ''75''], [''yesterday'', ''80'']]\<rparr>]])
     = Inl (DateParseError ''yesterday'') \<and>
   csvWalker (\<lambda>s. if s = ''2021-01-01'' then Some (2021, 1, 1) else None)
     (Dir ''PR'' [File ''readme.txt'' \<lparr>columns = [''Date'', ''PR''], records = []\<rparr>, Dir ''2021'' []])
     = Inl ValueError \<and>
   isl (preprocessing (\<lambda>s. if s = ''2021-01-01'' then Some (2021, 1, 1) else None)
     (Dir ''GHI'' [File ''2021.csv'' \<lparr>columns = [''Day'', ''GHI''],
                                        records = [[''2021-01-01'', ''3.5'']]\<rparr>])
     (Dir ''PR'' [File ''2021.csv'' \<lparr>columns = [''Date'', ''PR''],
                                        records = [[''2021-01-01'', ''75'']]\<rparr>]))"
  using csvWalker_failures
    [of "Dir ''GHI'' [File ''2021.csv'' \<lparr>columns = [''Day'', ''GHI''],
                                        records = [[''2021-01-01'', ''3.5'']]\<rparr>]"
        "(\<lambda>s. if s = ''2021-01-01'' then Some (2021, 1, 1) else None)"
        "Dir ''GHI'' [File ''2021.csv'' \<lparr>columns = [''Day'', ''GHI''],
                                        records = [[''2021-01-01'', ''3.5'']]\<rparr>]"
        "Dir ''PR'' [File ''2021.csv'' \<lparr>columns = [''Date'', ''PR''],
                                        records = [[''2021-01-01'', ''75'']]\<rparr>]"]
    csvWalker_failures
    [of "Dir ''PR'' [Dir ''2021'' [File ''jan.csv'' \<lparr>columns = [''Date'', ''PR''],
                                        records = [[''2021-01-01'', ''75''], [''yesterday'', ''80'']]\<rparr>]]"
        "(\<lambda>s. if s = ''2021-01-01'' then Some (2021, 1, 1) else None)"]
    csvWalker_failures
    [of "Dir ''PR'' [File ''readme.txt'' \<lparr>columns = [''Date'', ''PR''], records = []\<rparr>, Dir ''2021'' []]"
        "(\<lambda>s. if s = ''2021-01-01'' then Some (2021, 1, 1) else None)"]
  by (simp add: csvWalker_def pd_concat_def read_frame_def endswith_def cell_def others_def)

theorem csvWalker_only_csv_witness:
  "filter (\<lambda>f. endswith (fst f) ''.csv'')
     (concat (os_walk (Dir ''GHI'' [File ''notes.txt'' \<lparr>columns = [''x''], records = [[''y'']]\<rparr>,
        Dir ''2021'' [File ''jan.csv'' \<lparr>columns = [''Date'', ''GHI''], records = [[''2021-01-01'', ''3.5'']]\<rparr>,
                      File ''feb.CSV'' \<lparr>columns = [''GHI''], records = [[''4'']]\<rparr>]])))
   = filter (\<lambda>f. endswith (fst f) ''.csv'')
     (concat (os_walk (Dir ''GHI''
        [File ''jan.csv'' \<lparr>columns = [''Date'', ''GHI''], records = [[''2021-01-01'', ''3.5'']]\<rparr>]))) \<and>
   csvWalker (\<lambda>s. if s = ''2021-01-01'' then Some (2021, 1, 1) else None)
     (Dir ''GHI'' [File ''notes.txt'' \<lparr>columns = [''x''], records = [[''y'']]\<rparr>,
        Dir ''2021'' [File ''jan.csv'' \<lparr>columns = [''Date'', ''GHI''], records = [[''2021-01-01'', ''3.5'']]\<rparr>,
                      File ''feb.CSV'' \<lparr>columns = [''GHI''], records = [[''4'']]\<rparr>]])
   = Inr [((2021, 1, 1), [(''GHI'', ''3.5'')])] \<and>
   list_all (\<lambda>f. \<not> endswith (fst f) ''.csv'')
     (concat (os_walk (Dir ''PR'' [File ''feb.CSV'' \<lparr>columns = [''GHI''], records = [[''4'']]\<rparr>,
                                   File ''csv'' \<lparr>columns = [''GHI''], records = [[''4'']]\<rparr>]))) \<and>
   csvWalker (\<lambda>s. if s = ''2021-01-01'' then Some (2021, 1, 1) else None)
     (Dir ''PR'' [File ''feb.CSV'' \<lparr>columns = [''GHI''], records = [[''4'']]\<rparr>,
                  File ''csv'' \<lparr>columns = [''GHI''], records = [[''4'']]\<rparr>])
   = csvWalker (\<lambda>s. if s = ''2021-01-01'' then Some (2021, 1, 1) else None) (Dir ''PR'' []) \<and>
   csvWalker (\<lambda>s. if s = ''2021-01-01'' then Some (2021, 1, 1) else if s = ''2021-01-02'' then Some (2021, 1, 2) else None)
     (Dir ''GHI'' [Dir ''2021'' [File ''b.csv'' \<lparr>columns = [''Date'', ''GHI''], records = [[''2021-01-02'', ''4.5'']]\<rparr>],
        File ''a.csv'' \<lparr>columns = [''Date'', ''GHI''], records = [[''2021-01-01'', ''3.5'']]\<rparr>])
   = Inr [((2021, 1, 1), [(''GHI'', ''3.5'')]), ((2021, 1, 2), [(''GHI'', ''4.5'')])] \<and>
   csvWalker (\<lambda>s. if s = ''2021-01-01'' then Some (2021, 1, 1) else if s = ''2021-01-02'' then Some (2021, 1, 2) else None)
     (Dir ''GHI'' [File ''a.csv'' \<lparr>columns = [''Date'', ''GHI''], records = [[''2021-01-01'', ''3.5'']]\<rparr>,
        File ''b.csv'' \<lparr>columns = [''Date'', ''GHI''], records = [[''yesterday'', ''4.5'']]\<rparr>,
        File ''c.csv'' \<lparr>columns = [''GHI''], records = [[''5.5'']]\<rparr>])
   = Inl (DateParseError ''yesterday'')"
  using csvWalker_only_csv
    [where parse = "(\<lambda>s. if s = ''2021-01-01'' then Some (2021, 1, 1) else if s = ''2021-01-02'' then Some (2021, 1, 2) else None)"
       and dir = "Dir ''GHI'' [Dir ''2021'' [File ''b.csv'' \<lparr>columns = [''Date'', ''GHI''], records = [[''2021-01-02'', ''4.5'']]\<rparr>],
        File ''a.csv'' \<lparr>columns = [''Date'', ''GHI''], records = [[''2021-01-01'', ''3.5'']]\<rparr>]"]
    csvWalker_only_csv
    [where parse = "(\<lambda>s. if s = ''2021-01-01'' then Some (2021, 1, 1) else if s = ''2021-01-02'' then Some (2021, 1, 2) else None)"
       and dir = "Dir ''GHI'' [File ''a.csv'' \<lparr>columns = [''Date'', ''GHI''], records = [[''2021-01-01'', ''3.5'']]\<rparr>,
        File ''b.csv'' \<lparr>columns = [''Date'', ''GHI''], records = [[''yesterday'', ''4.5'']]\<rparr>,
        File ''c.csv'' \<lparr>columns = [''GHI''], records = [[''5.5'']]\<rparr>]"]
    csvWalker_only_csv
    [where parse = "(\<lambda>s. if s = ''2021-01-01'' then Some (2021, 1, 1) else None)"
       and dir = "Dir ''GHI'' [File ''notes.txt'' \<lparr>columns = [''x''], records = [[''y'']]\<rparr>,
        Dir ''2021'' [File ''jan.csv'' \<lparr>columns = [''Date'', ''GHI''], records = [[''2021-01-01'', ''3.5'']]\<rparr>,
                      File ''feb.CSV'' \<lparr>columns = [''GHI''], records = [[''4'']]\<rparr>]]"
       and dir' = "Dir ''GHI''
        [File ''jan.csv'' \<lparr>columns = [''Date'', ''GHI''], records = [[''2021-01-01'', ''3.5'']]\<rparr>]"]
    csvWalker_only_csv
    [where parse = "(\<lambda>s. if s = ''2021-01-01'' then Some (2021, 1, 1) else None)"
       and dir = "Dir ''PR'' [File ''feb.CSV'' \<lparr>columns = [''GHI''], records = [[''4'']]\<rparr>,
                  File ''csv'' \<lparr>columns = [''GHI''], records = [[''4'']]\<rparr>]"
       and name = "''PR''"]
  by (simp add: csvWalker_def pd_concat_def read_frame_def endswith_def cell_def others_def)

end
